theory Spec2Isabelle
  imports Main "HOL-Library.Sublist"
begin

section \<open>Characters and the string primitives of the Python runtime\<close>

text \<open>
  The converter works on Python \<open>str\<close> values. A character is modelled by an Isabelle
  \<open>char\<close>, read as the code point of the same number, so the strings covered are those
  whose code points lie below 256. The character classes below are the ones the
  interpreter uses (\<open>str.strip\<close>, \<open>str.lower\<close>, \<open>int\<close>, and the \<open>re\<close> classes
  \<open>\s\<close>, \<open>\d\<close>, \<open>\w\<close>), restricted to that range.
\<close>

definition code :: "char \<Rightarrow> nat" where
  "code c = of_char c"

text \<open>Unicode white space, as used by \<open>str.strip\<close> and by \<open>\s\<close>.\<close>

definition py_isspace :: "char \<Rightarrow> bool" where
  "py_isspace c =
     ((9 \<le> code c \<and> code c \<le> 13) \<or> (28 \<le> code c \<and> code c \<le> 32)
      \<or> code c = 133 \<or> code c = 160)"

text \<open>The white space of the C locale, which the integer parser skips.\<close>

definition c_isspace :: "char \<Rightarrow> bool" where
  "c_isspace c = ((9 \<le> code c \<and> code c \<le> 13) \<or> code c = 32)"

text \<open>The class \<open>[0-9]\<close>; below 256 the decimal digits of \<open>\d\<close> are the same ones.\<close>

definition is_digit09 :: "char \<Rightarrow> bool" where
  "is_digit09 c = (48 \<le> code c \<and> code c \<le> 57)"

definition py_isdecimal :: "char \<Rightarrow> bool" where
  "py_isdecimal c = is_digit09 c"

definition digit_val :: "char \<Rightarrow> int" where
  "digit_val c = int (code c) - 48"

text \<open>Alphanumeric characters (\<open>str.isalnum\<close>) and the class \<open>\w\<close>.\<close>

definition py_isalnum :: "char \<Rightarrow> bool" where
  "py_isalnum c =
     ((48 \<le> code c \<and> code c \<le> 57) \<or> (65 \<le> code c \<and> code c \<le> 90)
      \<or> (97 \<le> code c \<and> code c \<le> 122)
      \<or> code c = 170 \<or> code c = 178 \<or> code c = 179 \<or> code c = 181
      \<or> code c = 185 \<or> code c = 186 \<or> (188 \<le> code c \<and> code c \<le> 190)
      \<or> (192 \<le> code c \<and> code c \<le> 214) \<or> (216 \<le> code c \<and> code c \<le> 246)
      \<or> 248 \<le> code c)"

definition is_word :: "char \<Rightarrow> bool" where
  "is_word c = (py_isalnum c \<or> c = CHR ''_'')"

text \<open>\<open>str.lower\<close> on one character.\<close>

definition lower_char :: "char \<Rightarrow> char" where
  "lower_char c =
     (if (65 \<le> code c \<and> code c \<le> 90) \<or> (192 \<le> code c \<and> code c \<le> 222 \<and> code c \<noteq> 215)
      then char_of (code c + 32) else c)"

definition py_lower :: "string \<Rightarrow> string" where
  "py_lower s = map lower_char s"

text \<open>\<open>str.strip()\<close> removes white space at both ends.\<close>

definition py_strip :: "string \<Rightarrow> string" where
  "py_strip s = rev (dropWhile py_isspace (rev (dropWhile py_isspace s)))"

text \<open>
  \<open>str.split(sep)\<close> for a one-character separator: \<open>cur\<close> is the piece being read.
\<close>

fun split_on :: "char \<Rightarrow> string \<Rightarrow> string \<Rightarrow> string list" where
  "split_on sep cur [] = [cur]"
| "split_on sep cur (c # cs) =
     (if c = sep then cur # split_on sep [] cs else split_on sep (cur @ [c]) cs)"

definition py_split :: "string \<Rightarrow> char \<Rightarrow> string list" where
  "py_split s sep = split_on sep [] s"

text \<open>\<open>sep.join(parts)\<close>.\<close>

fun py_join :: "string \<Rightarrow> string list \<Rightarrow> string" where
  "py_join sep [] = []"
| "py_join sep [p] = p"
| "py_join sep (p # q # ps) = p @ sep @ py_join sep (q # ps)"

text \<open>Truth value of an \<open>Optional[str]\<close>: \<open>None\<close> and the empty string are false.\<close>

fun truthy :: "string option \<Rightarrow> bool" where
  "truthy None = False"
| "truthy (Some s) = (s \<noteq> [])"

subsection \<open>The built-in \<open>int\<close> on a string\<close>

text \<open>
  \<open>int(s)\<close> first rewrites the string to ASCII: a character below 127 is kept, other
  white space becomes a blank, another decimal digit becomes its ASCII digit, and at
  anything else the string is cut after a question mark.
\<close>

fun transform_decimal_and_space :: "string \<Rightarrow> string" where
  "transform_decimal_and_space [] = []"
| "transform_decimal_and_space (c # cs) =
     (if code c < 127 then c # transform_decimal_and_space cs
      else if py_isspace c then CHR '' '' # transform_decimal_and_space cs
      else if py_isdecimal c then char_of (48 + nat (digit_val c)) # transform_decimal_and_space cs
      else ''?'')"

text \<open>
  The scan of digits and underscores: the characters consumed and the rest, or \<open>None\<close>
  at a doubled underscore. \<open>prev\<close> is the character read last.
\<close>

fun scan_num :: "char option \<Rightarrow> string \<Rightarrow> (string \<times> string) option" where
  "scan_num prev [] = Some ([], [])"
| "scan_num prev (c # cs) =
     (if is_digit09 c then
        (case scan_num (Some c) cs of None \<Rightarrow> None | Some (a, r) \<Rightarrow> Some (c # a, r))
      else if c = CHR ''_'' then
        (if prev = Some (CHR ''_'') then None
         else (case scan_num (Some c) cs of None \<Rightarrow> None | Some (a, r) \<Rightarrow> Some (c # a, r)))
      else Some ([], c # cs))"

definition digits_value :: "string \<Rightarrow> int" where
  "digits_value ds = foldl (\<lambda>acc c. acc * 10 + digit_val c) 0 ds"

text \<open>
  Base-10 parsing of the ASCII text: leading white space, one optional sign, digits with
  single underscores between them, trailing white space, and nothing else. \<open>lim\<close> is
  the interpreter's limit on the number of digits (0 for none); it is looked at only for
  more than 640 digits.
\<close>

definition long_from_string :: "nat \<Rightarrow> string \<Rightarrow> int option" where
  "long_from_string lim s =
     (let s1 = dropWhile c_isspace s;
          neg = (s1 \<noteq> [] \<and> hd s1 = CHR ''-'');
          s2 = (if s1 \<noteq> [] \<and> (hd s1 = CHR ''+'' \<or> hd s1 = CHR ''-'') then tl s1 else s1)
      in if s2 \<noteq> [] \<and> hd s2 = CHR ''_'' then None
         else (case scan_num None s2 of
                 None \<Rightarrow> None
               | Some (a, r) \<Rightarrow>
                   if a \<noteq> [] \<and> last a = CHR ''_'' then None
                   else if a = [] then None
                   else if dropWhile c_isspace r \<noteq> [] then None
                   else (let ds = filter is_digit09 a
                         in if 640 < length ds \<and> 0 < lim \<and> lim < length ds then None
                            else Some (if neg then - digits_value ds else digits_value ds))))"

definition py_int :: "nat \<Rightarrow> string \<Rightarrow> int option" where
  "py_int lim s = long_from_string lim (transform_decimal_and_space s)"

section \<open>The converter's helpers\<close>

text \<open>\<open>safe_int\<close>: the default for an absent value and for any parse error.\<close>

definition safe_int :: "nat \<Rightarrow> string option \<Rightarrow> int \<Rightarrow> int" where
  "safe_int lim v dflt =
     (case v of None \<Rightarrow> dflt
      | Some s \<Rightarrow> (case py_int lim s of None \<Rightarrow> dflt | Some n \<Rightarrow> n))"

text \<open>
  An XML element: its tag, its text and its children in document order.
  \<open>findtext\<close> gives the text of the first child with the tag (the empty string when that
  child has no text); \<open>findall\<close> gives the children with the tag, in document order.
\<close>

datatype element = Element (tag: string) (etext: "string option") (children: "element list")

definition findtext :: "element \<Rightarrow> string \<Rightarrow> string option" where
  "findtext el t =
     (case filter (\<lambda>ch. tag ch = t) (children el) of
        [] \<Rightarrow> None
      | ch # _ \<Rightarrow> Some (case etext ch of None \<Rightarrow> [] | Some s \<Rightarrow> s))"

definition findall :: "element \<Rightarrow> string \<Rightarrow> element list" where
  "findall el t = filter (\<lambda>ch. tag ch = t) (children el)"

definition text_of :: "element \<Rightarrow> string \<Rightarrow> string option" where
  "text_of el t =
     (case findtext el t of
        None \<Rightarrow> None
      | Some s \<Rightarrow> (let s' = py_strip s in if s' \<noteq> [] then Some s' else None))"

section \<open>Regular expressions of the \<open>re\<close> module\<close>

text \<open>
  The six compiled patterns use literals, the classes \<open>[0-9]\<close>, \<open>\d\<close> and \<open>\s\<close>,
  the assertions \<open>\b\<close> and \<open>$\<close>, concatenation, alternation, greedy repetition and one
  capturing group. \<open>Rep lo hi r\<close> is \<open>r{lo,hi}\<close> (so \<open>r?\<close> is \<open>Rep 0 1 r\<close>),
  \<open>Star r\<close> is \<open>r*\<close>, and \<open>Grp r\<close> is group 1.
\<close>

datatype rx =
    Eps
  | Chr char
  | Any09
  | AnyDigit
  | AnySpace
  | WordB
  | AtEnd
  | Seq rx rx
  | Alt rx rx
  | Rep nat nat rx
  | Star rx
  | Grp rx

text \<open>
  A position of the matcher: the character before it (if any), the input still to be
  read, and the text of group 1 (if the group has matched).
\<close>

type_synonym mstate = "char option \<times> string \<times> string option"

definition group1 :: "mstate \<Rightarrow> string option" where
  "group1 m = snd (snd m)"

definition remaining :: "mstate \<Rightarrow> string" where
  "remaining m = fst (snd m)"

text \<open>One character of a class.\<close>

fun step_class :: "(char \<Rightarrow> bool) \<Rightarrow> mstate \<Rightarrow> mstate list" where
  "step_class P (p, [], g) = []"
| "step_class P (p, c # cs, g) = (if P c then [(Some c, cs, g)] else [])"

text \<open>A literal: under \<open>IGNORECASE\<close> both sides are compared in lower case.\<close>

definition chr_eq :: "bool \<Rightarrow> char \<Rightarrow> char \<Rightarrow> bool" where
  "chr_eq ic c x = (if ic then lower_char x = lower_char c else x = c)"

text \<open>\<open>\b\<close>: exactly one of the two neighbours is a word character.\<close>

fun is_word_opt :: "char option \<Rightarrow> bool" where
  "is_word_opt None = False"
| "is_word_opt (Some c) = is_word c"

fun at_boundary :: "mstate \<Rightarrow> bool" where
  "at_boundary (p, [], g) = is_word_opt p"
| "at_boundary (p, c # cs, g) = (is_word_opt p \<noteq> is_word c)"

text \<open>\<open>$\<close> without \<open>MULTILINE\<close>: the end of the string, or just before a final newline.\<close>

fun at_end :: "mstate \<Rightarrow> bool" where
  "at_end (p, inp, g) = (inp = [] \<or> inp = [CHR 0x0A])"

text \<open>
  The matcher gives every way a pattern can match at a position, in the order in which
  the backtracking engine tries them: the first alternative first, the longer repetition
  first. The head of the list is the match the engine reports.
\<close>

primrec rep :: "(mstate \<Rightarrow> mstate list) \<Rightarrow> nat \<Rightarrow> nat \<Rightarrow> mstate \<Rightarrow> mstate list" where
  "rep f lo 0 st = (if lo = 0 then [st] else [])"
| "rep f lo (Suc hi) st =
     concat (map (rep f (lo - 1) hi) (f st)) @ (if lo = 0 then [st] else [])"

text \<open>
  The unbounded repetition runs at most once per remaining character; an iteration that
  reads nothing is not repeated.
\<close>

primrec star :: "(mstate \<Rightarrow> mstate list) \<Rightarrow> nat \<Rightarrow> mstate \<Rightarrow> mstate list" where
  "star f 0 st = [st]"
| "star f (Suc n) st =
     concat (map (star f n)
       (filter (\<lambda>st'. length (remaining st') < length (remaining st)) (f st))) @ [st]"

definition set_group :: "mstate \<Rightarrow> mstate \<Rightarrow> mstate" where
  "set_group st st' =
     (fst st', remaining st',
      Some (take (length (remaining st) - length (remaining st')) (remaining st)))"

primrec rmatch :: "bool \<Rightarrow> rx \<Rightarrow> mstate \<Rightarrow> mstate list" where
  "rmatch ic Eps = (\<lambda>st. [st])"
| "rmatch ic (Chr c) = step_class (chr_eq ic c)"
| "rmatch ic Any09 = step_class is_digit09"
| "rmatch ic AnyDigit = step_class py_isdecimal"
| "rmatch ic AnySpace = step_class py_isspace"
| "rmatch ic WordB = (\<lambda>st. if at_boundary st then [st] else [])"
| "rmatch ic AtEnd = (\<lambda>st. if at_end st then [st] else [])"
| "rmatch ic (Seq a b) = (\<lambda>st. concat (map (rmatch ic b) (rmatch ic a st)))"
| "rmatch ic (Alt a b) = (\<lambda>st. rmatch ic a st @ rmatch ic b st)"
| "rmatch ic (Rep lo hi r) = rep (rmatch ic r) lo hi"
| "rmatch ic (Star r) = (\<lambda>st. star (rmatch ic r) (length (remaining st)) st)"
| "rmatch ic (Grp r) = (\<lambda>st. map (set_group st) (rmatch ic r st))"

text \<open>
  \<open>pattern.search\<close>: the first position, from the left, at which the pattern matches.
\<close>

fun search_from :: "bool \<Rightarrow> rx \<Rightarrow> char option \<Rightarrow> string \<Rightarrow> mstate option" where
  "search_from ic r p [] =
     (case rmatch ic r (p, [], None) of [] \<Rightarrow> None | m # _ \<Rightarrow> Some m)"
| "search_from ic r p (c # cs) =
     (case rmatch ic r (p, c # cs, None) of
        [] \<Rightarrow> search_from ic r (Some c) cs
      | m # _ \<Rightarrow> Some m)"

text \<open>A compiled pattern is the expression with its \<open>IGNORECASE\<close> flag.\<close>

type_synonym pattern = "bool \<times> rx"

definition re_search :: "pattern \<Rightarrow> string \<Rightarrow> mstate option" where
  "re_search pat s = search_from (fst pat) (snd pat) None s"

fun lit :: "string \<Rightarrow> rx" where
  "lit [] = Eps"
| "lit (c # cs) = Seq (Chr c) (lit cs)"

fun seqs :: "rx list \<Rightarrow> rx" where
  "seqs [] = Eps"
| "seqs (r # rs) = Seq r (seqs rs)"

fun alts :: "rx list \<Rightarrow> rx" where
  "alts [] = Alt Eps Eps"
| "alts [r] = r"
| "alts (r # rs) = Alt r (alts rs)"

section \<open>Season inference\<close>

definition ROMAN_MAP :: "(string \<times> int) list" where
  "ROMAN_MAP =
     [(''II'', 2), (''III'', 3), (''IV'', 4), (''V'', 5), (''VI'', 6),
      (''VII'', 7), (''VIII'', 8), (''IX'', 9), (''X'', 10)]"

definition digits12 :: "rx" where
  "digits12 = Grp (Rep 1 2 Any09)"

definition RE_S_OR_SEASON_NUM :: pattern where
  "RE_S_OR_SEASON_NUM =
     (True, seqs [WordB, Chr CHR ''S'', Rep 0 1 (lit ''eason''), Star AnySpace, digits12, WordB])"

definition RE_ORDINAL_SEASON :: pattern where
  "RE_ORDINAL_SEASON =
     (True, seqs [WordB, digits12, alts [lit ''st'', lit ''nd'', lit ''rd'', lit ''th''],
                  Seq AnySpace (Star AnySpace), lit ''Season'', WordB])"

definition RE_SEASON_NUM :: pattern where
  "RE_SEASON_NUM = (True, seqs [WordB, lit ''Season'', Star AnySpace, digits12, WordB])"

definition RE_PART_NUM :: pattern where
  "RE_PART_NUM = (True, seqs [WordB, lit ''Part'', Star AnySpace, digits12, WordB])"

definition RE_ROMAN :: pattern where
  "RE_ROMAN =
     (False, seqs [WordB,
        Grp (alts [lit ''II'', lit ''III'', lit ''IV'', lit ''V'', lit ''VI'', lit ''VII'',
                   lit ''VIII'', lit ''IX'', lit ''X'']),
        WordB])"

definition RE_TRAILING_NUM :: pattern where
  "RE_TRAILING_NUM = (False, seqs [Grp (Rep 1 2 AnyDigit), Star AnySpace, AtEnd])"

text \<open>
  \<open>int(m.group(1))\<close> inside \<open>try\<close>: an exception (also the one for a group that did not
  take part in the match) leaves the rule without a result.
\<close>

definition int_group :: "nat \<Rightarrow> mstate \<Rightarrow> int option" where
  "int_group lim m = (case group1 m of None \<Rightarrow> None | Some g \<Rightarrow> py_int lim g)"

text \<open>One of the rules 1 to 4: search, then the integer of group 1.\<close>

definition rule_num :: "nat \<Rightarrow> pattern \<Rightarrow> string \<Rightarrow> int option" where
  "rule_num lim pat s = (case re_search pat s of None \<Rightarrow> None | Some m \<Rightarrow> int_group lim m)"

text \<open>Rule 5: the token of group 1, looked up in \<open>ROMAN_MAP\<close>.\<close>

definition rule_roman :: "string \<Rightarrow> int option" where
  "rule_roman s =
     (case re_search RE_ROMAN s of
        None \<Rightarrow> None
      | Some m \<Rightarrow> (case group1 m of None \<Rightarrow> None | Some token \<Rightarrow> map_of ROMAN_MAP token))"

text \<open>Rule 6: the trailing number, kept only between 1 and 10.\<close>

definition rule_trailing :: "nat \<Rightarrow> string \<Rightarrow> int option" where
  "rule_trailing lim s =
     (case re_search RE_TRAILING_NUM s of
        None \<Rightarrow> None
      | Some m \<Rightarrow>
          (case int_group lim m of
             None \<Rightarrow> None
           | Some n \<Rightarrow> if 1 \<le> n \<and> n \<le> 10 then Some n else None))"

definition infer_season :: "nat \<Rightarrow> string \<Rightarrow> int option" where
  "infer_season lim series_title =
     (if series_title = [] then None
      else case rule_num lim RE_S_OR_SEASON_NUM series_title of Some n \<Rightarrow> Some n
      | None \<Rightarrow>
     (case rule_num lim RE_ORDINAL_SEASON series_title of Some n \<Rightarrow> Some n
      | None \<Rightarrow>
     (case rule_num lim RE_SEASON_NUM series_title of Some n \<Rightarrow> Some n
      | None \<Rightarrow>
     (case rule_num lim RE_PART_NUM series_title of Some n \<Rightarrow> Some n
      | None \<Rightarrow>
     (case rule_roman series_title of Some n \<Rightarrow> Some n
      | None \<Rightarrow> rule_trailing lim series_title)))))"

section \<open>Field mapping\<close>

definition map_kind :: "string option \<Rightarrow> string" where
  "map_kind series_type =
     (if truthy series_type \<and> py_lower (py_strip (the series_type)) = ''movie''
      then ''MOVIE'' else ''SERIES'')"

definition map_status :: "string option \<Rightarrow> bool \<Rightarrow> string" where
  "map_status mal_status is_rewatching =
     (if is_rewatching then ''REWATCH''
      else if \<not> truthy mal_status then ''PLAN''
      else (let s = py_lower (py_strip (the mal_status))
            in if s = ''watching'' then ''WATCHING''
               else if s = ''completed'' then ''COMPLETED''
               else if s = ''plan to watch'' then ''PLAN''
               else if s = ''on-hold'' then ''WAITING''
               else if s = ''dropped'' then ''PLAN''
               else ''PLAN''))"

definition split_tags :: "string option \<Rightarrow> string list" where
  "split_tags raw =
     (if \<not> truthy raw then []
      else (let parts = map py_strip (py_split (the raw) CHR '','')
            in filter (\<lambda>p. p \<noteq> []) parts))"

text \<open>
  The output item, with the keys of the dictionary the code builds (the key \<open>notes\<close> is
  the field \<open>notes_val\<close>).
\<close>

record item =
  title :: string
  kind :: string
  status :: string
  season :: "int option"
  episode :: "int option"
  absolute_episode :: "int option"
  notes_val :: "string option"
  tags :: "string list"
  rating :: "int option"
  cover_url :: "string option"
  banner_key :: "string option"
  image_url :: "string option"

text \<open>\<open>mal_status and mal_status.strip().lower() == name\<close>.\<close>

definition status_is :: "string option \<Rightarrow> string \<Rightarrow> bool" where
  "status_is mal_status name =
     (truthy mal_status \<and> py_lower (py_strip (the mal_status)) = name)"

text \<open>The fragments of the notes, in the order in which they are appended.\<close>

definition notes_parts :: "string option \<Rightarrow> string option \<Rightarrow> string list" where
  "notes_parts mal_status series_type =
     (if status_is mal_status ''on-hold'' then [''MAL: On-Hold''] else [])
     @ (if status_is mal_status ''dropped'' then [''MAL: Dropped''] else [])
     @ (if truthy series_type \<and> the series_type \<noteq> ''TV'' \<and> the series_type \<noteq> ''Movie''
        then [''MAL type: '' @ the series_type] else [])"

definition build_item :: "nat \<Rightarrow> element \<Rightarrow> bool \<Rightarrow> bool \<Rightarrow> item option" where
  "build_item lim anime_el include_dropped infer_season_flag =
     (let series_title = (case text_of anime_el ''series_title'' of None \<Rightarrow> [] | Some t \<Rightarrow> t);
          series_type = text_of anime_el ''series_type'';
          kind = map_kind series_type;
          mal_status = text_of anime_el ''my_status'';
          is_rewatching = (safe_int lim (text_of anime_el ''my_rewatching'') 0 = 1);
          rewatch_ep = safe_int lim (text_of anime_el ''my_rewatching_ep'') 0;
          watched_eps = safe_int lim (text_of anime_el ''my_watched_episodes'') 0;
          score = safe_int lim (text_of anime_el ''my_score'') 0;
          tags = split_tags (text_of anime_el ''my_tags'')
      in if status_is mal_status ''dropped'' \<and> \<not> include_dropped then None
         else
          (let status = map_status mal_status is_rewatching;
               episode =
                 (if status = ''WATCHING'' \<or> status = ''REWATCH'' then
                    (let ep = (if status = ''REWATCH'' then rewatch_ep else watched_eps)
                     in if ep = 0 then None else Some ep)
                  else None);
               season = (if infer_season_flag then infer_season lim series_title else None);
               parts = notes_parts mal_status series_type;
               notes_v = (if parts \<noteq> [] then Some (py_join '' | '' parts) else None)
           in Some \<lparr> title = series_title, kind = kind, status = status, season = season,
                     episode = episode, absolute_episode = None, notes_val = notes_v, tags = tags,
                     rating = (if score = 0 then None else Some score),
                     cover_url = None, banner_key = None, image_url = None \<rparr>))"

section \<open>The batch conversion\<close>

text \<open>
  The loop over the \<open>anime\<close> elements: \<open>items\<close> is the list built so far, and an item
  is appended when the record is not filtered out.
\<close>

fun collect_items :: "nat \<Rightarrow> bool \<Rightarrow> bool \<Rightarrow> item list \<Rightarrow> element list \<Rightarrow> item list" where
  "collect_items lim include_dropped infer_season_flag items [] = items"
| "collect_items lim include_dropped infer_season_flag items (anime # rest) =
     (case build_item lim anime include_dropped infer_season_flag of
        None \<Rightarrow> collect_items lim include_dropped infer_season_flag items rest
      | Some it \<Rightarrow> collect_items lim include_dropped infer_season_flag (items @ [it]) rest)"

text \<open>
  The outside world of one run: what parsing the input path gives, the parent of a path,
  and whether creating the directory, opening the file and writing to it fail. The
  effects are the operations the run performs on the file system, in order.
\<close>

datatype error = ParseError | OSError

record env =
  parse_xml :: "string \<Rightarrow> error + element"
  parent :: "string \<Rightarrow> string"
  mkdir_error :: "string \<Rightarrow> error option"
  open_error :: "string \<Rightarrow> error option"
  dump_error :: "string \<Rightarrow> item list \<Rightarrow> error option"

datatype effect = Mkdir string | OpenWrite string | JsonDump string "item list"

definition convert_mal_xml_to_app_json ::
  "env \<Rightarrow> nat \<Rightarrow> string \<Rightarrow> string \<Rightarrow> bool \<Rightarrow> bool \<Rightarrow> (error + item list) \<times> effect list" where
  "convert_mal_xml_to_app_json w lim input_path output_path include_dropped infer_season_flag =
     (case parse_xml w input_path of
        Inl e \<Rightarrow> (Inl e, [])
      | Inr root \<Rightarrow>
          (let items = collect_items lim include_dropped infer_season_flag [] (findall root ''anime'');
               dir = parent w output_path
           in case mkdir_error w dir of
                Some e \<Rightarrow> (Inl e, [Mkdir dir])
              | None \<Rightarrow>
                  (case open_error w output_path of
                     Some e \<Rightarrow> (Inl e, [Mkdir dir, OpenWrite output_path])
                   | None \<Rightarrow>
                       (case dump_error w output_path items of
                          Some e \<Rightarrow>
                            (Inl e, [Mkdir dir, OpenWrite output_path, JsonDump output_path items])
                        | None \<Rightarrow>
                            (Inr items,
                             [Mkdir dir, OpenWrite output_path, JsonDump output_path items])))))"

section \<open>Sample records\<close>

text \<open>
  A record with the given children, each a tag with its text, and a few records and a
  document used to run the definitions on concrete inputs.
\<close>

definition anime :: "(string \<times> string) list \<Rightarrow> element" where
  "anime kvs = Element ''anime'' None (map (\<lambda>(t, v). Element t (Some v) []) kvs)"

definition rec_dropped :: element where
  "rec_dropped = anime [(''series_title'', ''Bleach''), (''my_status'', ''Dropped'')]"

definition rec_dropped_rewatching :: element where
  "rec_dropped_rewatching =
     anime [(''series_title'', ''Bleach''), (''my_status'', ''Dropped''), (''my_rewatching'', ''1''),
            (''my_rewatching_ep'', ''4'')]"

definition rec_watching :: element where
  "rec_watching =
     anime [(''series_title'', ''Monster''), (''series_type'', ''TV''), (''my_status'', ''Watching''),
            (''my_watched_episodes'', ''12'')]"

definition rec_movie :: element where
  "rec_movie =
     anime [(''series_title'', ''Your Name.''), (''series_type'', ''movie''),
            (''my_status'', ''Completed'')]"

definition root_doc :: element where
  "root_doc = Element ''myanimelist'' None
     [Element ''myinfo'' None [], rec_dropped, rec_watching, rec_movie]"

definition world :: "element \<Rightarrow> env" where
  "world root =
     \<lparr> parse_xml = (\<lambda>path. if path = ''in.xml'' then Inr root else Inl ParseError),
       parent = (\<lambda>path. ''out''),
       mkdir_error = (\<lambda>path. None),
       open_error = (\<lambda>path. None),
       dump_error = (\<lambda>path items. None) \<rparr>"

section \<open>Notions used in the proofs\<close>





section \<open>Properties of the field mapper\<close>

lemma sublist_py_join: "p \<in> set parts \<Longrightarrow> sublist p (py_join sep parts)"
proof (induction sep parts rule: py_join.induct)
  case (1 sep)
  then show ?case by simp
next
  case (2 sep q)
  then show ?case by simp
next
  case (3 sep q r ps)
  show ?case
  proof (cases "p = q")
    case True
    then show ?thesis by (simp add: sublist_def) (metis append_Nil)
  next
    case False
    with 3 have "sublist p (py_join sep (r # ps))" by simp
    then obtain a b where "py_join sep (r # ps) = a @ p @ b" by (auto simp: sublist_def)
    then have "py_join sep (q # r # ps) = (q @ sep @ a) @ p @ b" by simp
    then show ?thesis unfolding sublist_def by blast
  qed
qed

lemma map_status_rewatch_iff: "(map_status ms rw = ''REWATCH'') = rw"
  by (simp add: map_status_def Let_def)

lemma build_item_None_iff:
  "(build_item lim el d i = None) = (status_is (text_of el ''my_status'') ''dropped'' \<and> \<not> d)"
  unfolding build_item_def Let_def by simp

lemma build_item_Some:
  assumes "build_item lim el d i = Some it"
  shows "status it = map_status (text_of el ''my_status'')
                        (safe_int lim (text_of el ''my_rewatching'') 0 = 1)"
    and "kind it = map_kind (text_of el ''series_type'')"
    and "notes_val it =
           (if notes_parts (text_of el ''my_status'') (text_of el ''series_type'') \<noteq> []
            then Some (py_join '' | ''
                   (notes_parts (text_of el ''my_status'') (text_of el ''series_type'')))
            else None)"
    and "episode it =
           (if status it = ''WATCHING'' \<or> status it = ''REWATCH'' then
              (if (if status it = ''REWATCH''
                   then safe_int lim (text_of el ''my_rewatching_ep'') 0
                   else safe_int lim (text_of el ''my_watched_episodes'') 0) = 0
               then None
               else Some (if status it = ''REWATCH''
                          then safe_int lim (text_of el ''my_rewatching_ep'') 0
                          else safe_int lim (text_of el ''my_watched_episodes'') 0))
            else None)"
proof -
  from assms have d: "\<not> (status_is (text_of el ''my_status'') ''dropped'' \<and> \<not> d)"
    using build_item_None_iff [of lim el d i] by simp
  from assms [unfolded build_item_def Let_def if_not_P [OF d]]
  have it: "it = \<lparr>title = (case text_of el ''series_title'' of None \<Rightarrow> [] | Some t \<Rightarrow> t),
     kind = map_kind (text_of el ''series_type''),
     status = map_status (text_of el ''my_status'') (safe_int lim (text_of el ''my_rewatching'') 0 = 1),
     season = (if i then infer_season lim (case text_of el ''series_title'' of None \<Rightarrow> [] | Some t \<Rightarrow> t) else None),
     episode = (if map_status (text_of el ''my_status'') (safe_int lim (text_of el ''my_rewatching'') 0 = 1) = ''WATCHING'' \<or>
          map_status (text_of el ''my_status'') (safe_int lim (text_of el ''my_rewatching'') 0 = 1) = ''REWATCH''
       then if (if map_status (text_of el ''my_status'') (safe_int lim (text_of el ''my_rewatching'') 0 = 1) = ''REWATCH''
                then safe_int lim (text_of el ''my_rewatching_ep'') 0
                else safe_int lim (text_of el ''my_watched_episodes'') 0) = 0
            then None
            else Some (if map_status (text_of el ''my_status'') (safe_int lim (text_of el ''my_rewatching'') 0 = 1) = ''REWATCH''
                then safe_int lim (text_of el ''my_rewatching_ep'') 0
                else safe_int lim (text_of el ''my_watched_episodes'') 0)
       else None),
     absolute_episode = None,
     notes_val = (if notes_parts (text_of el ''my_status'') (text_of el ''series_type'') \<noteq> []
        then Some (py_join '' | '' (notes_parts (text_of el ''my_status'') (text_of el ''series_type'')))
        else None),
     tags = split_tags (text_of el ''my_tags''),
     rating = (if safe_int lim (text_of el ''my_score'') 0 = 0 then None
               else Some (safe_int lim (text_of el ''my_score'') 0)),
     cover_url = None, banner_key = None, image_url = None\<rparr>"
    by simp
  show "status it = map_status (text_of el ''my_status'')
                        (safe_int lim (text_of el ''my_rewatching'') 0 = 1)"
    by (subst it) simp
  show "kind it = map_kind (text_of el ''series_type'')"
    by (subst it) simp
  show "notes_val it =
           (if notes_parts (text_of el ''my_status'') (text_of el ''series_type'') \<noteq> []
            then Some (py_join '' | ''
                   (notes_parts (text_of el ''my_status'') (text_of el ''series_type'')))
            else None)"
    by (subst it) simp
  show "episode it =
           (if status it = ''WATCHING'' \<or> status it = ''REWATCH'' then
              (if (if status it = ''REWATCH''
                   then safe_int lim (text_of el ''my_rewatching_ep'') 0
                   else safe_int lim (text_of el ''my_watched_episodes'') 0) = 0
               then None
               else Some (if status it = ''REWATCH''
                          then safe_int lim (text_of el ''my_rewatching_ep'') 0
                          else safe_int lim (text_of el ''my_watched_episodes'') 0))
            else None)"
    by (subst (1 2 3 4 5) it) (simp only: item.simps)
qed

lemma safe_int_one: "(safe_int lim v 0 = 1) = (\<exists>s. v = Some s \<and> py_int lim s = Some 1)"
  by (auto simp: safe_int_def split: option.splits)

lemma map_status_dropped:
  "status_is ms ''dropped'' \<Longrightarrow> map_status ms rw = (if rw then ''REWATCH'' else ''PLAN'')"
  by (simp add: map_status_def status_is_def Let_def)

lemma dropped_fragment_in_parts:
  "status_is ms ''dropped'' \<Longrightarrow> ''MAL: Dropped'' \<in> set (notes_parts ms ty)"
  unfolding notes_parts_def by simp

lemma movie_type_facts:
  assumes "py_lower (py_strip t) = ''movie''"
  shows "t \<noteq> []" and "t \<noteq> ''TV''"
proof -
  show "t \<noteq> []"
    using assms by (auto simp: py_lower_def py_strip_def)
  have "py_lower (py_strip ''TV'') = ''tv''"
    by code_simp
  with assms show "t \<noteq> ''TV''" by auto
qed

lemma type_fragment_in_parts:
  "t \<noteq> [] \<Longrightarrow> t \<noteq> ''TV'' \<Longrightarrow> t \<noteq> ''Movie'' \<Longrightarrow>
     (''MAL type: '' @ t) \<in> set (notes_parts ms (Some t))"
  unfolding notes_parts_def by simp

lemma collect_items_eq:
  "collect_items lim d i acc recs =
     acc @ map (\<lambda>r. the (build_item lim r d i)) (filter (\<lambda>r. build_item lim r d i \<noteq> None) recs)"
  by (induction recs arbitrary: acc) (auto split: option.splits)

text \<open>
  Claim C2, as amended. A record whose status is \<open>Dropped\<close> in any case gives no item
  when \<open>include_dropped\<close> is false. When it is true the record gives one item whose notes
  contain the fragment \<open>MAL: Dropped\<close> and whose status is \<open>PLAN\<close>, unless the
  rewatching flag of the record is set: then the status is \<open>REWATCH\<close>.
\<close>

theorem dropped_record:
  assumes dr: "status_is (text_of el ''my_status'') ''dropped''"
  shows "build_item lim el False i = None \<and>
  (\<exists>it ns. build_item lim el True i = Some it \<and>
     status it = (if safe_int lim (text_of el ''my_rewatching'') 0 = 1 then ''REWATCH'' else ''PLAN'') \<and>
     notes_val it = Some ns \<and> sublist ''MAL: Dropped'' ns)"
proof -
  let ?parts = "notes_parts (text_of el ''my_status'') (text_of el ''series_type'')"
  have a: "build_item lim el False i = None"
    using dr by (simp add: build_item_None_iff)
  have "build_item lim el True i \<noteq> None"
    by (simp add: build_item_None_iff)
  then obtain it where it: "build_item lim el True i = Some it" by blast
  have st: "status it =
      (if safe_int lim (text_of el ''my_rewatching'') 0 = 1 then ''REWATCH'' else ''PLAN'')"
    using build_item_Some(1) [OF it] map_status_dropped [OF dr] by simp
  have mem: "''MAL: Dropped'' \<in> set ?parts"
    using dr by (rule dropped_fragment_in_parts)
  then have "?parts \<noteq> []" by auto
  then have n: "notes_val it = Some (py_join '' | '' ?parts)"
    using build_item_Some(3) [OF it] by simp
  from mem have "sublist ''MAL: Dropped'' (py_join '' | '' ?parts)"
    by (rule sublist_py_join)
  with a it st n show ?thesis by blast
qed

theorem dropped_record_witness:
  "status_is (text_of rec_dropped ''my_status'') ''dropped'' \<and>
   build_item 4300 rec_dropped False True = None \<and>
   (\<exists>it ns. build_item 4300 rec_dropped True True = Some it \<and> status it = ''PLAN'' \<and>
      notes_val it = Some ns \<and> sublist ''MAL: Dropped'' ns)"
proof -
  have h: "status_is (text_of rec_dropped ''my_status'') ''dropped''"
    by code_simp
  have f: "safe_int 4300 (text_of rec_dropped ''my_rewatching'') 0 \<noteq> 1"
    by code_simp
  show ?thesis
    using h f dropped_record [OF h, of 4300 True] by simp
qed

text \<open>
  Claim C2 as stated fails: a dropped record that is being rewatched is included with
  the status \<open>REWATCH\<close>, not \<open>PLAN\<close>.
\<close>

theorem dropped_rewatching_counterexample:
  "status_is (text_of rec_dropped_rewatching ''my_status'') ''dropped'' \<and>
   map_option status (build_item 4300 rec_dropped_rewatching True True) = Some ''REWATCH''"
  by code_simp

text \<open>
  Claim C3. The episode of an item is the rewatch-episode count when the status is
  \<open>REWATCH\<close> and the watched-episode count when it is \<open>WATCHING\<close>, with a count of 0
  giving no episode; for every other status there is no episode.
\<close>

theorem episode_by_status: "build_item lim el d i = Some it \<Longrightarrow>
  episode it =
    (if status it = ''REWATCH'' then
       (if safe_int lim (text_of el ''my_rewatching_ep'') 0 = 0 then None
        else Some (safe_int lim (text_of el ''my_rewatching_ep'') 0))
     else if status it = ''WATCHING'' then
       (if safe_int lim (text_of el ''my_watched_episodes'') 0 = 0 then None
        else Some (safe_int lim (text_of el ''my_watched_episodes'') 0))
     else None)"
  by (simp only: build_item_Some(4) [of lim el d i it] split: if_splits) simp

theorem episode_by_status_witness:
  "\<exists>it. build_item 4300 rec_watching False False = Some it \<and> status it = ''WATCHING'' \<and>
        episode it = Some 12"
proof -
  have "build_item 4300 rec_watching False False \<noteq> None" by code_simp
  then obtain it where h: "build_item 4300 rec_watching False False = Some it" by blast
  have "map_status (text_of rec_watching ''my_status'')
          (safe_int 4300 (text_of rec_watching ''my_rewatching'') 0 = 1) = ''WATCHING''"
    by code_simp
  then have st: "status it = ''WATCHING''"
    using build_item_Some(1) [OF h] by simp
  have e: "safe_int 4300 (text_of rec_watching ''my_watched_episodes'') 0 = 12" by code_simp
  show ?thesis
    using h st e episode_by_status [OF h] by simp
qed

text \<open>
  Claim C5. With the rewatching flag set, \<open>map_status\<close> gives \<open>REWATCH\<close> whatever the
  source status is, also when it is absent; so does every item built from a record whose
  \<open>my_rewatching\<close> field is 1.
\<close>

theorem rewatching_gives_rewatch: "map_status mal_status True = ''REWATCH'' \<and>
   (\<forall>it. safe_int lim (text_of el ''my_rewatching'') 0 = 1 \<and> build_item lim el d i = Some it
      \<longrightarrow> status it = ''REWATCH'')"
proof (intro conjI allI impI)
  show "map_status mal_status True = ''REWATCH''"
    by (simp add: map_status_rewatch_iff)
next
  fix it
  assume h: "safe_int lim (text_of el ''my_rewatching'') 0 = 1 \<and> build_item lim el d i = Some it"
  then have "status it = map_status (text_of el ''my_status'') True"
    using build_item_Some(1) [of lim el d i it] by simp
  then show "status it = ''REWATCH''"
    by (simp add: map_status_rewatch_iff)
qed

theorem rewatching_gives_rewatch_witness:
  "safe_int 4300 (text_of rec_dropped_rewatching ''my_rewatching'') 0 = 1 \<and>
   (\<exists>it. build_item 4300 rec_dropped_rewatching True False = Some it \<and> status it = ''REWATCH'')"
proof -
  have h1: "safe_int 4300 (text_of rec_dropped_rewatching ''my_rewatching'') 0 = 1" by code_simp
  have "build_item 4300 rec_dropped_rewatching True False \<noteq> None" by code_simp
  then obtain it where h2: "build_item 4300 rec_dropped_rewatching True False = Some it" by blast
  show ?thesis
    using h1 h2 rewatching_gives_rewatch [of "Some ''Dropped''" 4300 rec_dropped_rewatching True False] by blast
qed

text \<open>
  Claim C6. The items of a successful conversion are the items of the retained records,
  one for each, in the order of the \<open>anime\<close> elements of the document.
\<close>

theorem items_one_per_retained_record: "parse_xml w input_path = Inr root \<Longrightarrow>
   fst (convert_mal_xml_to_app_json w lim input_path output_path d i) = Inr items \<Longrightarrow>
   items = map (\<lambda>r. the (build_item lim r d i))
             (filter (\<lambda>r. build_item lim r d i \<noteq> None) (findall root ''anime''))"
  by (auto simp: convert_mal_xml_to_app_json_def Let_def collect_items_eq split: option.splits)

theorem items_one_per_retained_record_witness:
  "parse_xml (world root_doc) ''in.xml'' = Inr root_doc \<and>
   fst (convert_mal_xml_to_app_json (world root_doc) 4300 ''in.xml'' ''out/list.json'' False False)
     = Inr [the (build_item 4300 rec_watching False False),
            the (build_item 4300 rec_movie False False)]"
proof -
  have h1: "parse_xml (world root_doc) ''in.xml'' = Inr root_doc"
    by (simp add: world_def)
  have "\<exists>items. fst (convert_mal_xml_to_app_json (world root_doc) 4300 ''in.xml''
          ''out/list.json'' False False) = Inr items"
    by (simp add: convert_mal_xml_to_app_json_def world_def Let_def)
  then obtain items where h2: "fst (convert_mal_xml_to_app_json (world root_doc) 4300 ''in.xml''
          ''out/list.json'' False False) = Inr items" by blast
  have f: "findall root_doc ''anime'' = [rec_dropped, rec_watching, rec_movie]"
    by (simp add: findall_def root_doc_def rec_dropped_def rec_watching_def rec_movie_def anime_def)
  have a: "build_item 4300 rec_dropped False False = None" by code_simp
  have b: "build_item 4300 rec_watching False False \<noteq> None" by code_simp
  have c: "build_item 4300 rec_movie False False \<noteq> None" by code_simp
  show ?thesis
    using h1 h2 items_one_per_retained_record [OF h1 h2] f a b c by simp
qed

lemma split_on_nonempty: "split_on sep cur s \<noteq> []"
  by (induction s arbitrary: cur) auto

lemma py_join_Cons: "ps \<noteq> [] \<Longrightarrow> py_join sep (p # ps) = p @ sep @ py_join sep ps"
  by (cases ps) auto

lemma split_on_join: "py_join [sep] (split_on sep cur s) = cur @ s"
  by (induction s arbitrary: cur) (auto simp: py_join_Cons split_on_nonempty)

lemma split_on_no_sep:
  "sep \<notin> set cur \<Longrightarrow> p \<in> set (split_on sep cur s) \<Longrightarrow> sep \<notin> set p"
proof (induction s arbitrary: cur)
  case Nil
  then show ?case by simp
next
  case (Cons c cs)
  show ?case
  proof (cases "c = sep")
    case True
    with Cons.prems have "p = cur \<or> p \<in> set (split_on sep [] cs)" by simp
    then show ?thesis
    proof
      assume "p = cur"
      with Cons.prems show ?thesis by simp
    next
      assume "p \<in> set (split_on sep [] cs)"
      then show ?thesis using Cons.IH [of "[]"] by simp
    qed
  next
    case False
    with Cons.prems have "p \<in> set (split_on sep (cur @ [c]) cs)" by simp
    moreover from False Cons.prems have "sep \<notin> set (cur @ [c])" by auto
    ultimately show ?thesis using Cons.IH [of "cur @ [c]"] by blast
  qed
qed

lemma py_strip_decomp:
  "p = takeWhile py_isspace p @ py_strip p
         @ rev (takeWhile py_isspace (rev (dropWhile py_isspace p)))"
proof -
  let ?q = "dropWhile py_isspace p"
  have "rev ?q = takeWhile py_isspace (rev ?q) @ dropWhile py_isspace (rev ?q)"
    by simp
  then have "?q = rev (dropWhile py_isspace (rev ?q)) @ rev (takeWhile py_isspace (rev ?q))"
    by (metis rev_append rev_rev_ident)
  then have "?q = py_strip p @ rev (takeWhile py_isspace (rev ?q))"
    unfolding py_strip_def .
  moreover have "p = takeWhile py_isspace p @ ?q" by simp
  ultimately show ?thesis by metis
qed

lemma py_strip_ends:
  assumes "py_strip p \<noteq> []"
  shows "\<not> py_isspace (hd (py_strip p))" and "\<not> py_isspace (last (py_strip p))"
proof -
  let ?q = "dropWhile py_isspace p"
  let ?r = "dropWhile py_isspace (rev ?q)"
  from assms have "rev ?r \<noteq> []" unfolding py_strip_def .
  then have r: "?r \<noteq> []" using rev_is_Nil_conv by blast
  have q: "?q \<noteq> []"
  proof
    assume e: "?q = []"
    from r [unfolded e] show False by simp
  qed
  have "last (py_strip p) = hd ?r"
    using r by (simp add: py_strip_def last_rev)
  moreover have "\<not> py_isspace (hd ?r)" using r by (rule hd_dropWhile)
  ultimately show "\<not> py_isspace (last (py_strip p))" by simp
  have "?q = py_strip p @ rev (takeWhile py_isspace (rev ?q))"
    using py_strip_decomp [of p] by (metis same_append_eq takeWhile_dropWhile_id)
  then have "hd ?q = hd (py_strip p)" using assms by (metis hd_append2)
  moreover have "\<not> py_isspace (hd ?q)" using q by (rule hd_dropWhile)
  ultimately show "\<not> py_isspace (hd (py_strip p))" by simp
qed


text \<open>
  Claim C7. \<open>split_tags\<close> gives the empty list for an absent and for an empty string,
  and \<open>["a", "b", "c"]\<close> for \<open>" a, b ,,c "\<close>. For every raw string, the pieces it
  works on are comma-free and give the raw string back when joined with commas (it splits
  on the commas); each piece is stripped, the empty ones are removed and the order is
  kept. Stripping removes white space at both ends and nothing else: what remains is
  empty or begins and ends with a character that is not white space.
\<close>

theorem split_tags_spec:
  "split_tags None = [] \<and> split_tags (Some []) = [] \<and>
   split_tags (Some '' a, b ,,c '') = [''a'', ''b'', ''c''] \<and>
   (\<exists>pieces. pieces \<noteq> [] \<and> py_join '','' pieces = raw \<and> (\<forall>p \<in> set pieces. CHR '','' \<notin> set p) \<and>
      split_tags (Some raw) = filter (\<lambda>p. p \<noteq> []) (map py_strip pieces)) \<and>
   (\<exists>l r. p = l @ py_strip p @ r \<and> (\<forall>c \<in> set l. py_isspace c) \<and> (\<forall>c \<in> set r. py_isspace c) \<and>
      (py_strip p \<noteq> [] \<longrightarrow> \<not> py_isspace (hd (py_strip p)) \<and> \<not> py_isspace (last (py_strip p))))"
proof (intro conjI)
  show "split_tags None = []" by (simp add: split_tags_def)
  show "split_tags (Some []) = []" by (simp add: split_tags_def)
  show "split_tags (Some '' a, b ,,c '') = [''a'', ''b'', ''c'']" by code_simp
  show "\<exists>pieces. pieces \<noteq> [] \<and> py_join '','' pieces = raw \<and> (\<forall>p \<in> set pieces. CHR '','' \<notin> set p) \<and>
      split_tags (Some raw) = filter (\<lambda>p. p \<noteq> []) (map py_strip pieces)"
  proof (intro exI conjI)
    show "py_split raw CHR '','' \<noteq> []" by (simp add: py_split_def split_on_nonempty)
    show "py_join '','' (py_split raw CHR '','') = raw"
      using split_on_join [of "CHR '',''" "[]" raw] by (simp add: py_split_def)
    show "\<forall>p \<in> set (py_split raw CHR '',''). CHR '','' \<notin> set p"
      using split_on_no_sep [of "CHR '',''" "[]"] by (auto simp: py_split_def)
    show "split_tags (Some raw) = filter (\<lambda>p. p \<noteq> []) (map py_strip (py_split raw CHR '',''))"
    proof (cases "raw = []")
      case True
      then show ?thesis by (simp add: split_tags_def py_split_def py_strip_def)
    next
      case False
      then show ?thesis by (simp add: split_tags_def)
    qed
  qed
  show "\<exists>l r. p = l @ py_strip p @ r \<and> (\<forall>c \<in> set l. py_isspace c) \<and> (\<forall>c \<in> set r. py_isspace c) \<and>
      (py_strip p \<noteq> [] \<longrightarrow> \<not> py_isspace (hd (py_strip p)) \<and> \<not> py_isspace (last (py_strip p)))"
  proof (intro exI conjI)
    show "p = takeWhile py_isspace p @ py_strip p
         @ rev (takeWhile py_isspace (rev (dropWhile py_isspace p)))"
      by (rule py_strip_decomp)
    show "\<forall>c \<in> set (takeWhile py_isspace p). py_isspace c"
      by (auto dest: set_takeWhileD)
    show "\<forall>c \<in> set (rev (takeWhile py_isspace (rev (dropWhile py_isspace p)))). py_isspace c"
      by (auto dest: set_takeWhileD)
    show "py_strip p \<noteq> [] \<longrightarrow> \<not> py_isspace (hd (py_strip p)) \<and> \<not> py_isspace (last (py_strip p))"
      using py_strip_ends [of p] by blast
  qed
qed


theorem split_tags_spec_witness:
  "split_tags (Some ''x, y'') = [''x'', ''y''] \<and> py_strip '' y'' = ''y'' \<and>
   (\<exists>pieces. pieces \<noteq> [] \<and> py_join '','' pieces = ''x, y'' \<and> (\<forall>p \<in> set pieces. CHR '','' \<notin> set p) \<and>
      [''x'', ''y''] = filter (\<lambda>p. p \<noteq> []) (map py_strip pieces)) \<and>
   (\<exists>l r. '' y'' = l @ ''y'' @ r \<and> (\<forall>c \<in> set l. py_isspace c) \<and> (\<forall>c \<in> set r. py_isspace c))"
proof -
  have a: "split_tags (Some ''x, y'') = [''x'', ''y'']" by code_simp
  have b: "py_strip '' y'' = ''y''" by code_simp
  show ?thesis
    using a b split_tags_spec [of "''x, y''" "'' y''"] by auto
qed

text \<open>
  Claim C8. When parsing the input fails, the conversion ends with that error and has
  performed no operation on the file system: no directory is created and the output file
  is neither opened nor written. Whatever is written is the complete list of items, built
  from a document that was parsed.
\<close>

theorem parse_failure_writes_nothing:
  "(parse_xml w input_path = Inl e \<longrightarrow>
      convert_mal_xml_to_app_json w lim input_path output_path d i = (Inl e, [])) \<and>
   (\<forall>p xs. JsonDump p xs \<in> set (snd (convert_mal_xml_to_app_json w lim input_path output_path d i))
      \<longrightarrow> (\<exists>root. parse_xml w input_path = Inr root \<and>
             xs = collect_items lim d i [] (findall root ''anime'')))"
  by (auto simp: convert_mal_xml_to_app_json_def Let_def split: sum.splits option.splits)

theorem parse_failure_writes_nothing_witness:
  "parse_xml (world root_doc) ''missing.xml'' = Inl ParseError \<and>
   convert_mal_xml_to_app_json (world root_doc) 4300 ''missing.xml'' ''out/list.json'' False True
     = (Inl ParseError, [])"
proof -
  have h: "parse_xml (world root_doc) ''missing.xml'' = Inl ParseError"
    by (simp add: world_def)
  show ?thesis
    using h parse_failure_writes_nothing [of "world root_doc" "''missing.xml''" ParseError] by simp
qed

text \<open>
  Claim C9. The rewatching flag \<open>safe_int(text(el, "my_rewatching"), 0) == 1\<close> holds
  exactly when the field is present and parses to the integer 1: an absent field and an
  unparseable one give the default 0, and any other integer is not 1. The status of an
  item is \<open>REWATCH\<close> exactly in that case.
\<close>

theorem rewatching_flag_iff: "(safe_int lim v 0 = 1) = (\<exists>s. v = Some s \<and> py_int lim s = Some 1) \<and>
  (\<forall>it. build_item lim el d i = Some it \<longrightarrow>
     (status it = ''REWATCH'') = (\<exists>s. text_of el ''my_rewatching'' = Some s \<and> py_int lim s = Some 1))"
proof (intro conjI allI impI)
  show "(safe_int lim v 0 = 1) = (\<exists>s. v = Some s \<and> py_int lim s = Some 1)"
    by (rule safe_int_one)
next
  fix it
  assume "build_item lim el d i = Some it"
  then have "(status it = ''REWATCH'') = (safe_int lim (text_of el ''my_rewatching'') 0 = 1)"
    using build_item_Some(1) [of lim el d i it] by (simp add: map_status_rewatch_iff)
  then show "(status it = ''REWATCH'') =
      (\<exists>s. text_of el ''my_rewatching'' = Some s \<and> py_int lim s = Some 1)"
    by (simp add: safe_int_one)
qed

theorem rewatching_flag_iff_witness:
  "text_of rec_dropped_rewatching ''my_rewatching'' = Some ''1'' \<and> py_int 4300 ''1'' = Some 1 \<and>
   (\<exists>it. build_item 4300 rec_dropped_rewatching True False = Some it \<and> status it = ''REWATCH'')"
proof -
  have h1: "text_of rec_dropped_rewatching ''my_rewatching'' = Some ''1''" by code_simp
  have h2: "py_int 4300 ''1'' = Some 1" by code_simp
  have "build_item 4300 rec_dropped_rewatching True False \<noteq> None" by code_simp
  then obtain it where h3: "build_item 4300 rec_dropped_rewatching True False = Some it" by blast
  show ?thesis
    using h1 h2 h3 rewatching_flag_iff [of 4300 "Some ''1''" rec_dropped_rewatching True False] by blast
qed

text \<open>
  Claim C10. A record whose series type is \<open>movie\<close> up to case, and is not the string
  \<open>Movie\<close> itself, gives an item of kind \<open>MOVIE\<close> whose notes contain the fragment
  \<open>MAL type: \<close> followed by the type as it is in the source.
\<close>

theorem movie_type_kind_and_note:
  assumes ty: "text_of el ''series_type'' = Some t"
    and mv: "py_lower (py_strip t) = ''movie''"
    and nm: "t \<noteq> ''Movie''"
    and it: "build_item lim el d i = Some it"
  shows "kind it = ''MOVIE'' \<and>
         (\<exists>ns. notes_val it = Some ns \<and> sublist (''MAL type: '' @ t) ns)"
proof -
  let ?parts = "notes_parts (text_of el ''my_status'') (text_of el ''series_type'')"
  have ne: "t \<noteq> []" and ntv: "t \<noteq> ''TV''"
    using movie_type_facts [OF mv] by blast+
  have k: "kind it = ''MOVIE''"
    using build_item_Some(2) [OF it] ty mv ne by (simp add: map_kind_def)
  have mem: "(''MAL type: '' @ t) \<in> set ?parts"
    using type_fragment_in_parts [OF ne ntv nm] ty by simp
  then have "?parts \<noteq> []" by auto
  then have n: "notes_val it = Some (py_join '' | '' ?parts)"
    using build_item_Some(3) [OF it] by simp
  from mem have "sublist (''MAL type: '' @ t) (py_join '' | '' ?parts)"
    by (rule sublist_py_join)
  with k n show ?thesis by blast
qed

theorem movie_type_kind_and_note_witness:
  "text_of rec_movie ''series_type'' = Some ''movie'' \<and> py_lower (py_strip ''movie'') = ''movie'' \<and>
   ''movie'' \<noteq> ''Movie'' \<and>
   (\<exists>it ns. build_item 4300 rec_movie False True = Some it \<and> kind it = ''MOVIE'' \<and>
      notes_val it = Some ns \<and> sublist ''MAL type: movie'' ns)"
proof -
  have h1: "text_of rec_movie ''series_type'' = Some ''movie''" by code_simp
  have h2: "py_lower (py_strip ''movie'') = ''movie''" by code_simp
  have h3: "''movie'' \<noteq> ''Movie''" by simp
  have "build_item 4300 rec_movie False True \<noteq> None"
    by code_simp
  then obtain it where h4: "build_item 4300 rec_movie False True = Some it" by blast
  show ?thesis
    using h1 h2 h3 h4 movie_type_kind_and_note [OF h1 h2 h3 h4] by simp
qed

section \<open>Properties of the season inference\<close>




























text \<open>
  Claim C4 fails on the code. The title \<open>Foo 105\<close> ends in a number of three digits and
  none of the rules 1 to 5 matches it, yet the search of rule 6 matches its last two
  digits \<open>05\<close> and the inferred season is 5.
\<close>

theorem trailing_three_digits_gives_season:
  "rule_num 4300 RE_S_OR_SEASON_NUM ''Foo 105'' = None \<and>
   rule_num 4300 RE_ORDINAL_SEASON ''Foo 105'' = None \<and>
   rule_num 4300 RE_SEASON_NUM ''Foo 105'' = None \<and>
   rule_num 4300 RE_PART_NUM ''Foo 105'' = None \<and>
   rule_roman ''Foo 105'' = None \<and>
   map_option group1 (re_search RE_TRAILING_NUM ''Foo 105'') = Some (Some ''05'') \<and>
   infer_season 4300 ''Foo 105'' = Some 5"
  by code_simp

end
